theory Spec2Isabelle
  imports Main "HOL-Library.Word"
begin

unbundle bit_operations_syntax

section \<open>NeighborhoodConvexityAnalyzer: data model\<close>

text \<open>
  A lattice point is a tuple of integers; the static dimension of the C++ type is the length
  of the list. \<open>HyperRectDomain\<close> is the box between its lower and upper bound.
\<close>

type_synonym Point = "int list"

type_synonym PointRange = "Point list"

record Domain =
  lowerBound :: Point
  upperBound :: Point

text \<open>
  \<open>DigitalConvexity<KSpace>\<close> (member \<open>myDigConv\<close>) is declared in a header that is not part
  of the sources at hand. The analyzer only calls its two tests on a point range, so it is
  taken as a parameter: a pair of pure functions on point ranges.
\<close>

record DigitalConvexity =
  dc_isFullyConvex :: "PointRange \<Rightarrow> bool"
  dc_is0Convex :: "PointRange \<Rightarrow> bool"

datatype OracleTest = IsFullyConvexTest | Is0ConvexTest

text \<open>
  The enum \<open>Computation\<close>, with the values of the source. The C++ enumerators convert to
  \<open>int\<close> when they are stored in \<open>mask\<close>; \<open>int\<close> is a 32-bit word.
\<close>

definition FullConvexity_X_with_center :: "32 word" where
  "FullConvexity_X_with_center = 0x1"

definition FullConvexity_X_without_center :: "32 word" where
  "FullConvexity_X_without_center = 0x2"

definition FullConvexity_CompX_with_center :: "32 word" where
  "FullConvexity_CompX_with_center = 0x4"

definition FullConvexity_CompX_without_center :: "32 word" where
  "FullConvexity_CompX_without_center = 0x8"

definition Convexity_X_with_center :: "32 word" where
  "Convexity_X_with_center = 0x10"

definition Convexity_X_without_center :: "32 word" where
  "Convexity_X_without_center = 0x20"

definition Convexity_CompX_with_center :: "32 word" where
  "Convexity_CompX_with_center = 0x40"

definition Convexity_CompX_without_center :: "32 word" where
  "Convexity_CompX_without_center = 0x80"

text \<open>
  The members of the class. \<open>oracleTrace\<close> is not a member: it is a ghost field that
  records, in order, every call made to \<open>myDigConv\<close> (which test, on which range), so that
  "the oracle is called" can be stated.
\<close>

record Analyzer =
  myDomain :: Domain
  myDigConv :: DigitalConvexity
  myCenter :: Point
  myLocalX :: PointRange
  myLocalCompX :: PointRange
  myCenterInX :: bool
  myComputations :: "32 word"
  myResults :: "32 word"
  oracleTrace :: "(OracleTest \<times> PointRange) list"

section \<open>NeighborhoodConvexityAnalyzer: operations\<close>

text \<open>
  Constructor from lower and upper points. \<open>myCenter\<close> is default-constructed (the zero
  point), both ranges are empty vectors. \<open>myCenterInX\<close> is not initialised by the
  constructor: its indeterminate value is the argument \<open>cin\<close>. \<open>dc\<close> is the oracle
  \<open>myDigConv( lo, hi )\<close>. The constructor from a cellular space sets the same members from
  the bounds of the space, so it is this function at \<open>lo = aKSpace.lowerBound()\<close> and
  \<open>hi = aKSpace.upperBound()\<close>.
\<close>

definition NeighborhoodConvexityAnalyzer ::
  "DigitalConvexity \<Rightarrow> bool \<Rightarrow> Point \<Rightarrow> Point \<Rightarrow> Analyzer" where
  "NeighborhoodConvexityAnalyzer dc cin lo hi =
     \<lparr> myDomain = \<lparr> lowerBound = lo, upperBound = hi \<rparr>,
       myDigConv = dc,
       myCenter = replicate (length lo) 0,
       myLocalX = [],
       myLocalCompX = [],
       myCenterInX = cin,
       myComputations = 0,
       myResults = 0,
       oracleTrace = [] \<rparr>"

text \<open>
  The defaulted default constructor, \<open>NeighborhoodConvexityAnalyzer() = default\<close>. It
  default-constructs the class members (\<open>d0\<close> and \<open>dc\<close> stand for the default domain and
  oracle, whose headers are missing; the center is the zero point, both ranges are empty) and
  gives the members of built-in type no value: \<open>myCenterInX\<close>, \<open>myComputations\<close> and
  \<open>myResults\<close> hold whatever the storage holds, the arguments \<open>cin\<close>, \<open>c0\<close> and \<open>r0\<close>.
\<close>

definition NeighborhoodConvexityAnalyzer_default ::
  "DigitalConvexity \<Rightarrow> Domain \<Rightarrow> bool \<Rightarrow> 32 word \<Rightarrow> 32 word \<Rightarrow> Analyzer" where
  "NeighborhoodConvexityAnalyzer_default dc d0 cin c0 r0 =
     \<lparr> myDomain = d0,
       myDigConv = dc,
       myCenter = replicate (length (lowerBound d0)) 0,
       myLocalX = [],
       myLocalCompX = [],
       myCenterInX = cin,
       myComputations = c0,
       myResults = r0,
       oracleTrace = [] \<rparr>"

definition center :: "Analyzer \<Rightarrow> Point" where
  "center s = myCenter s"

definition isCenterInX :: "Analyzer \<Rightarrow> bool" where
  "isCenterInX s = myCenterInX s"

text \<open>
  The four predicate accessors, statement by statement: the mask, the early return on a set
  computation bit, \<open>push_back\<close> of the center, the oracle call (traced), \<open>pop_back\<close>
  (\<open>butlast\<close>: the vector is not empty there), then the two mask updates.
\<close>

definition isFullyConvex :: "bool \<Rightarrow> Analyzer \<Rightarrow> bool \<times> Analyzer" where
  "isFullyConvex with_center s =
     (let mask = (if with_center then FullConvexity_X_with_center
                  else FullConvexity_X_without_center)
      in if myComputations s AND mask \<noteq> 0 then (myResults s AND mask \<noteq> 0, s)
         else
           let s1 = (if with_center then s\<lparr>myLocalX := myLocalX s @ [center s]\<rparr> else s);
               ok = dc_isFullyConvex (myDigConv s1) (myLocalX s1);
               s2 = s1\<lparr>oracleTrace := oracleTrace s1 @ [(IsFullyConvexTest, myLocalX s1)]\<rparr>;
               s3 = (if with_center then s2\<lparr>myLocalX := butlast (myLocalX s2)\<rparr> else s2);
               s4 = s3\<lparr>myComputations := myComputations s3 OR mask\<rparr>;
               s5 = (if ok then s4\<lparr>myResults := myResults s4 OR mask\<rparr> else s4)
           in (ok, s5))"

definition isComplementaryFullyConvex :: "bool \<Rightarrow> Analyzer \<Rightarrow> bool \<times> Analyzer" where
  "isComplementaryFullyConvex with_center s =
     (let mask = (if with_center then FullConvexity_CompX_with_center
                  else FullConvexity_CompX_without_center)
      in if myComputations s AND mask \<noteq> 0 then (myResults s AND mask \<noteq> 0, s)
         else
           let s1 = (if with_center then s\<lparr>myLocalCompX := myLocalCompX s @ [center s]\<rparr>
                     else s);
               ok = dc_isFullyConvex (myDigConv s1) (myLocalCompX s1);
               s2 = s1\<lparr>oracleTrace :=
                         oracleTrace s1 @ [(IsFullyConvexTest, myLocalCompX s1)]\<rparr>;
               s3 = (if with_center then s2\<lparr>myLocalCompX := butlast (myLocalCompX s2)\<rparr>
                     else s2);
               s4 = s3\<lparr>myComputations := myComputations s3 OR mask\<rparr>;
               s5 = (if ok then s4\<lparr>myResults := myResults s4 OR mask\<rparr> else s4)
           in (ok, s5))"

definition is0Convex :: "bool \<Rightarrow> Analyzer \<Rightarrow> bool \<times> Analyzer" where
  "is0Convex with_center s =
     (let mask = (if with_center then FullConvexity_X_with_center
                  else FullConvexity_X_without_center)
      in if myComputations s AND mask \<noteq> 0 then (myResults s AND mask \<noteq> 0, s)
         else
           let s1 = (if with_center then s\<lparr>myLocalX := myLocalX s @ [center s]\<rparr> else s);
               ok = dc_is0Convex (myDigConv s1) (myLocalX s1);
               s2 = s1\<lparr>oracleTrace := oracleTrace s1 @ [(Is0ConvexTest, myLocalX s1)]\<rparr>;
               s3 = (if with_center then s2\<lparr>myLocalX := butlast (myLocalX s2)\<rparr> else s2);
               s4 = s3\<lparr>myComputations := myComputations s3 OR mask\<rparr>;
               s5 = (if ok then s4\<lparr>myResults := myResults s4 OR mask\<rparr> else s4)
           in (ok, s5))"

definition isComplementary0Convex :: "bool \<Rightarrow> Analyzer \<Rightarrow> bool \<times> Analyzer" where
  "isComplementary0Convex with_center s =
     (let mask = (if with_center then FullConvexity_CompX_with_center
                  else FullConvexity_CompX_without_center)
      in if myComputations s AND mask \<noteq> 0 then (myResults s AND mask \<noteq> 0, s)
         else
           let s1 = (if with_center then s\<lparr>myLocalCompX := myLocalCompX s @ [center s]\<rparr>
                     else s);
               ok = dc_is0Convex (myDigConv s1) (myLocalCompX s1);
               s2 = s1\<lparr>oracleTrace :=
                         oracleTrace s1 @ [(Is0ConvexTest, myLocalCompX s1)]\<rparr>;
               s3 = (if with_center then s2\<lparr>myLocalCompX := butlast (myLocalCompX s2)\<rparr>
                     else s2);
               s4 = s3\<lparr>myComputations := myComputations s3 OR mask\<rparr>;
               s5 = (if ok then s4\<lparr>myResults := myResults s4 OR mask\<rparr> else s4)
           in (ok, s5))"

text \<open>
  \<open>isFullyConvexCollapsible\<close>: the C++ \<open>&&\<close> evaluates left to right and stops at the
  first false operand, so a later accessor is called only when the earlier operands hold.
\<close>

definition isFullyConvexCollapsible :: "Analyzer \<Rightarrow> bool \<times> Analyzer" where
  "isFullyConvexCollapsible s =
     (if isCenterInX s then
        (if myLocalX s = [] then (False, s)
         else let (a, s1) = isFullyConvex True s
              in if \<not> a then (False, s1) else isFullyConvex False s1)
      else
        (if myLocalCompX s = [] then (False, s)
         else let (a, s1) = isComplementaryFullyConvex True s
              in if \<not> a then (False, s1) else isComplementaryFullyConvex False s1))"

section \<open>Re-centering\<close>

text \<open>
  Modelled from the spec: the scan of a window and the membership test of the domain
  (\<open>HyperRectDomain.h\<close> is missing). \<open>box_points\<close> lists all lattice points of the box between
  \<open>lo\<close> and \<open>hi\<close>, the first coordinate varying fastest; \<open>isInside\<close> holds for the points
  between the two bounds of the domain, coordinate by coordinate.
\<close>

fun box_points :: "Point \<Rightarrow> Point \<Rightarrow> Point list" where
  "box_points (l # ls) (h # hs) =
     concat (map (\<lambda>rest. map (\<lambda>x. x # rest) [l..h]) (box_points ls hs))"
| "box_points _ _ = [[]]"

definition isInside :: "Domain \<Rightarrow> Point \<Rightarrow> bool" where
  "isInside d p = (list_all2 (\<le>) (lowerBound d) p \<and> list_all2 (\<le>) p (upperBound d))"

text \<open>
  Modelled from the spec: \<open>setCenter\<close> is declared in the class but defined in
  \<open>NeighborhoodConvexityAnalyzer.ih\<close>, which is missing from the sources. The spec: it sets
  the center, queries \<open>X\<close> at the center, scans every point of the \<open>(2K+1)^dimension\<close>
  window around \<open>c\<close>, restricted to the analyzer's domain and without \<open>c\<close> itself, puts each
  point into \<open>localX\<close> or \<open>localCompX\<close> according to \<open>X\<close>, and resets \<open>computations\<close> and
  \<open>results\<close>. \<open>K\<close> is the template parameter of the class.
\<close>

definition setCenter :: "int \<Rightarrow> Point \<Rightarrow> (Point \<Rightarrow> bool) \<Rightarrow> Analyzer \<Rightarrow> Analyzer" where
  "setCenter K c X s =
     (let window = box_points (map (\<lambda>x. x - K) c) (map (\<lambda>x. x + K) c);
          scanned = filter (\<lambda>p. isInside (myDomain s) p \<and> p \<noteq> c) window
      in s\<lparr> myCenter := c,
            myCenterInX := X c,
            myLocalX := filter X scanned,
            myLocalCompX := filter (\<lambda>p. \<not> X p) scanned,
            myComputations := 0,
            myResults := 0 \<rparr>)"

section \<open>Sequences of calls\<close>

text \<open>The public operations that change an analyzer, as values, and their execution.\<close>

datatype Call =
  CallSetCenter int Point "Point \<Rightarrow> bool"
  | CallIsFullyConvex bool
  | CallIsComplementaryFullyConvex bool
  | CallIs0Convex bool
  | CallIsComplementary0Convex bool
  | CallIsFullyConvexCollapsible

fun call :: "Call \<Rightarrow> Analyzer \<Rightarrow> Analyzer" where
  "call (CallSetCenter K c X) s = setCenter K c X s"
| "call (CallIsFullyConvex b) s = snd (isFullyConvex b s)"
| "call (CallIsComplementaryFullyConvex b) s = snd (isComplementaryFullyConvex b s)"
| "call (CallIs0Convex b) s = snd (is0Convex b s)"
| "call (CallIsComplementary0Convex b) s = snd (isComplementary0Convex b s)"
| "call CallIsFullyConvexCollapsible s = snd (isFullyConvexCollapsible s)"

fun calls :: "Call list \<Rightarrow> Analyzer \<Rightarrow> Analyzer" where
  "calls [] s = s"
| "calls (c # cs) s = calls cs (call c s)"

text \<open>
  The states an analyzer can be in: built by any of its constructors, then any sequence of
  calls (\<open>setCenter\<close> with any \<open>K\<close>, center and predicate among them).
\<close>

inductive reachable :: "Analyzer \<Rightarrow> bool" where
  constructed: "reachable (NeighborhoodConvexityAnalyzer dc cin lo hi)"
| default_constructed: "reachable (NeighborhoodConvexityAnalyzer_default dc d0 cin c0 r0)"
| called: "reachable s \<Longrightarrow> reachable (call c s)"

text \<open>
  The reachable states whose two masks have been given a value: built by a constructor that
  zeroes them, or re-centered from any reachable state, then any sequence of calls.
\<close>

inductive initialised :: "Analyzer \<Rightarrow> bool" where
  zeroed: "initialised (NeighborhoodConvexityAnalyzer dc cin lo hi)"
| recentered: "reachable s \<Longrightarrow> initialised (setCenter K c X s)"
| later: "initialised s \<Longrightarrow> initialised (call c s)"

text \<open>A recorded outcome has its evaluated flag: no bit of \<open>myResults\<close> outside \<open>myComputations\<close>.\<close>

definition results_within_computations :: "Analyzer \<Rightarrow> bool" where
  "results_within_computations s = (myResults s AND NOT (myComputations s) = 0)"

text \<open>The eight enumerators, for statements about all of them.\<close>

definition all_Computations :: "32 word list" where
  "all_Computations =
     [FullConvexity_X_with_center, FullConvexity_X_without_center,
      FullConvexity_CompX_with_center, FullConvexity_CompX_without_center,
      Convexity_X_with_center, Convexity_X_without_center,
      Convexity_CompX_with_center, Convexity_CompX_without_center]"


text \<open>
  What a predicate accessor must leave alone: both ranges, the center and its membership flag,
  the domain and the oracle.
\<close>

definition same_window :: "Analyzer \<Rightarrow> Analyzer \<Rightarrow> bool" where
  "same_window s s' =
     (myLocalX s' = myLocalX s \<and> myLocalCompX s' = myLocalCompX s \<and>
      myCenter s' = myCenter s \<and> myCenterInX s' = myCenterInX s \<and>
      myDomain s' = myDomain s \<and> myDigConv s' = myDigConv s)"


section \<open>Example analyzers\<close>

text \<open>
  A stub oracle and two analyzers in dimension 2 with \<open>K = 1\<close>, domain \<open>[-2,2] x [-2,2]\<close> and
  center \<open>(0,0)\<close>. In the first, \<open>X\<close> is the two points \<open>(-1,-1)\<close> and \<open>(1,0)\<close>: they are not
  adjacent, so \<open>X\<close> is not fully convex, and the segment between them holds no other lattice
  point, so \<open>X\<close> is 0-convex; the stub answers accordingly. In the second, \<open>X\<close> is the center
  alone.
\<close>

definition stubDigConv :: DigitalConvexity where
  "stubDigConv = \<lparr> dc_isFullyConvex = (\<lambda>L. False), dc_is0Convex = (\<lambda>L. True) \<rparr>"

definition twoPointsX :: "Point \<Rightarrow> bool" where
  "twoPointsX p = (p = [-1, -1] \<or> p = [1, 0])"

definition twoPointsAnalyzer :: Analyzer where
  "twoPointsAnalyzer =
     setCenter 1 [0, 0] twoPointsX (NeighborhoodConvexityAnalyzer stubDigConv False [-2, -2] [2, 2])"

definition centerOnlyX :: "Point \<Rightarrow> bool" where
  "centerOnlyX p = (p = [0, 0])"

definition centerOnlyAnalyzer :: Analyzer where
  "centerOnlyAnalyzer =
     setCenter 1 [0, 0] centerOnlyX (NeighborhoodConvexityAnalyzer stubDigConv False [-2, -2] [2, 2])"

text \<open>
  A default-constructed analyzer whose storage held 0 for \<open>myComputations\<close> and 1 for
  \<open>myResults\<close>.
\<close>

definition defaultAnalyzer :: Analyzer where
  "defaultAnalyzer =
     NeighborhoodConvexityAnalyzer_default stubDigConv
       \<lparr> lowerBound = [0, 0], upperBound = [0, 0] \<rparr> False 0 1"


section \<open>Convex hull services: data model\<close>

text \<open>
  \<open>ConvexityHelper.h\<close> declares the hull services; their bodies are in \<open>ConvexityHelper.ih\<close>
  and the hull algorithm is in \<open>QuickHull.h\<close>, both missing from the sources. The definitions
  of this part and of the next follow the specification, and each says so.
\<close>

text \<open>
  Modelled from the spec: the completion status of a hull run (\<open>QuickHull.h\<close> is missing),
  \<open>NotStarted < VerticesCompleted < AllCompleted\<close>.
\<close>

datatype Status = NotStarted | VerticesCompleted | AllCompleted

fun status_rank :: "Status \<Rightarrow> nat" where
  "status_rank NotStarted = 0"
| "status_rank VerticesCompleted = 1"
| "status_rank AllCompleted = 2"

type_synonym IndexRange = "nat list"

text \<open>
  Modelled from the spec: the ridge type of the hull algorithm (\<open>QuickHull.h\<close> is missing), an
  unordered pair of cell identifiers; here the pair with the smaller identifier first.
\<close>

type_synonym Ridge = "nat \<times> nat"

definition ridge :: "nat \<Rightarrow> nat \<Rightarrow> Ridge" where
  "ridge f g = (min f g, max f g)"

text \<open>
  Modelled from the spec: a half-space \<open>N . x \<le> c\<close> with integer normal and offset
  (\<open>BoundedLatticePolytope.h\<close> is missing).
\<close>

record HalfSpace =
  hs_N :: "int list"
  hs_c :: int

text \<open>
  Modelled from the spec: what a hull run exposes (\<open>QuickHull.h\<close> is missing). Its status, the
  vertex positions, for every output cell its vertex indices in the order the algorithm
  reports them, for every cell the cells that share a ridge with it, and for every cell its
  supporting half-space. The hull algorithm itself is a black box: nothing is assumed about
  these values.
\<close>

record HullRun =
  hull_status :: Status
  hull_positions :: "Point list"
  hull_cells :: "IndexRange list"
  hull_neighbors :: "nat list list"
  hull_halfspaces :: "HalfSpace list"

definition neighbors_of :: "HullRun \<Rightarrow> nat \<Rightarrow> nat list" where
  "neighbors_of hull f =
     (if f < length (hull_neighbors hull) then hull_neighbors hull ! f else [])"

text \<open>
  Modelled from the spec: the ridge enumeration of a run (\<open>QuickHull.h\<close> is missing). The cells
  in order, and for each cell the pairs it forms with the cells sharing a ridge with it, so
  that a ridge is met once from each of its two cells.
\<close>

definition hull_ridges :: "HullRun \<Rightarrow> (nat \<times> nat) list" where
  "hull_ridges hull =
     concat (map (\<lambda>f. map (\<lambda>g. (f, g)) (neighbors_of hull f)) [0..<length (hull_cells hull)])"

definition hull_ridge_list :: "HullRun \<Rightarrow> Ridge list" where
  "hull_ridge_list hull = map (\<lambda>(f, g). ridge f g) (hull_ridges hull)"

text \<open>The elements of a list in the order of their first occurrence.\<close>

definition first_seen :: "'a list \<Rightarrow> 'a list" where
  "first_seen xs = rev (remdups (rev xs))"

text \<open>
  Modelled from the spec: the kernel selector and the hull kernel adapter (\<open>QuickHull.h\<close> is
  missing), which runs the external algorithm on a point collection.
\<close>

datatype KernelChoice = IntegralConvex | IntegralDelaunay | RationalConvex | RationalDelaunay

type_synonym HullKernel = "KernelChoice \<Rightarrow> Point list \<Rightarrow> HullRun"

text \<open>
  Modelled from the spec: the one failure of the error taxonomy that is not a return value, a
  query on a hull run whose status is not reached.
\<close>

datatype Failure = PreconditionViolation

section \<open>Facet and ridge extraction\<close>

text \<open>
  Modelled from the spec: the pieces of \<open>computeFacetAndRidgeVertices\<close> (body in the missing
  \<open>ConvexityHelper.ih\<close>). \<open>cell_at\<close> reads the vertex list of a cell; \<open>shared_vertices\<close> is the
  shared vertex set of a ridge, the vertices of its first cell that are also in its second;
  \<open>see_ridge\<close> is one step of the ridge loop: a ridge seen for the first time gets the next
  unused facet index, and its shared vertices become that facet's vertex list; a ridge seen
  before changes nothing.
\<close>

definition cell_at :: "IndexRange list \<Rightarrow> nat \<Rightarrow> IndexRange" where
  "cell_at cells f = (if f < length cells then cells ! f else [])"

definition shared_vertices :: "IndexRange list \<Rightarrow> Ridge \<Rightarrow> IndexRange" where
  "shared_vertices cells r =
     filter (\<lambda>v. v \<in> set (cell_at cells (snd r))) (cell_at cells (fst r))"

fun see_ridge ::
  "IndexRange list \<Rightarrow> (Ridge \<rightharpoonup> nat) \<times> IndexRange list \<Rightarrow> nat \<times> nat \<Rightarrow>
   (Ridge \<rightharpoonup> nat) \<times> IndexRange list" where
  "see_ridge cells (m, fv) (f, g) =
     (case m (ridge f g) of
        Some i \<Rightarrow> (m, fv)
      | None \<Rightarrow> (m(ridge f g \<mapsto> length fv), fv @ [shared_vertices cells (ridge f g)]))"

record Extraction =
  cell_vertices :: "IndexRange list"
  r2f :: "Ridge \<rightharpoonup> nat"
  face_vertices :: "IndexRange list"

text \<open>
  Modelled from the spec: \<open>computeFacetAndRidgeVertices\<close> is declared in \<open>ConvexityHelper.h\<close>
  and defined in the missing \<open>ConvexityHelper.ih\<close>. The spec: iterate the hull's cells, record
  each cell's vertex list, and for each unordered pair of cells sharing a ridge assign the next
  unused facet index the first time the ridge is seen, with the ridge's shared vertex set as
  the facet's vertex list. Calling it before the run is completed is a contract violation that
  fails loudly.
\<close>

definition computeFacetAndRidgeVertices :: "HullRun \<Rightarrow> Failure + Extraction" where
  "computeFacetAndRidgeVertices hull =
     (if status_rank (hull_status hull) < status_rank AllCompleted
      then Inl PreconditionViolation
      else let (m, fv) = foldl (see_ridge (hull_cells hull)) (Map.empty, []) (hull_ridges hull)
           in Inr \<lparr> cell_vertices = hull_cells hull, r2f = m, face_vertices = fv \<rparr>)"

section \<open>Polytope, boundary and cell complex builders\<close>

text \<open>
  Modelled from the spec: full-dimensionality of a point range, which the missing hull
  algorithm (\<open>QuickHull.h\<close>) decides. The affine span of lattice points of dimension \<open>d\<close> has
  dimension less than \<open>d\<close> exactly when the points lie in a common hyperplane \<open>a . x = b\<close> with
  \<open>a\<close> not zero (integer coefficients suffice for lattice points). It is stated as that
  property, not as an algorithm.
\<close>

definition dot :: "int list \<Rightarrow> int list \<Rightarrow> int" where
  "dot a p = sum_list (map2 (*) a p)"

definition in_common_hyperplane :: "nat \<Rightarrow> Point list \<Rightarrow> bool" where
  "in_common_hyperplane d pts =
     (\<exists>a b. length a = d \<and> a \<noteq> replicate d 0 \<and> (\<forall>p\<in>set pts. dot a p = b))"

definition full_dimensional :: "nat \<Rightarrow> Point list \<Rightarrow> bool" where
  "full_dimensional d pts = (\<not> in_common_hyperplane d pts)"

text \<open>
  Modelled from the spec: the lattice polytope as a list of half-spaces, with its empty
  sentinel (\<open>BoundedLatticePolytope.h\<close> is missing), and the \<open>2 d\<close> axis-aligned bounding
  inequalities of a point range that make it Minkowski-summable.
\<close>

datatype LatticePolytope = EmptyPolytope | Polytope "HalfSpace list"

definition unit_vector :: "nat \<Rightarrow> nat \<Rightarrow> int \<Rightarrow> int list" where
  "unit_vector d i s = (replicate d 0)[i := s]"

definition axis_aligned_bounds :: "nat \<Rightarrow> Point list \<Rightarrow> HalfSpace list" where
  "axis_aligned_bounds d pts =
     (case pts of
        [] \<Rightarrow> []
      | p0 # rest \<Rightarrow>
          concat (map (\<lambda>i.
            [\<lparr> hs_N = unit_vector d i 1,
               hs_c = fold max (map (\<lambda>p. p ! i) rest) (p0 ! i) \<rparr>,
             \<lparr> hs_N = unit_vector d i (- 1),
               hs_c = - fold min (map (\<lambda>p. p ! i) rest) (p0 ! i) \<rparr>]) [0..<d]))"

text \<open>
  Modelled from the spec: \<open>computeLatticePolytope\<close> (body in the missing \<open>ConvexityHelper.ih\<close>).
  The spec: it runs the integral-convex kernel; if the points are not full-dimensional it
  returns the empty-polytope sentinel; otherwise it derives one half-space per hull facet and
  optionally appends the axis-aligned bounding inequalities. \<open>remove_duplicates\<close> collapses
  repeated input points before the hull computation. Reading the facets of a run that is not
  completed is the precondition violation of the spec.
\<close>

definition computeLatticePolytope ::
  "nat \<Rightarrow> HullKernel \<Rightarrow> Point list \<Rightarrow> bool \<Rightarrow> bool \<Rightarrow> Failure + LatticePolytope" where
  "computeLatticePolytope d qh input_points remove_duplicates make_minkowski_summable =
     (let pts = (if remove_duplicates then remdups input_points else input_points);
          hull = qh IntegralConvex pts
      in if \<not> full_dimensional d pts then Inr EmptyPolytope
         else if status_rank (hull_status hull) < status_rank AllCompleted
         then Inl PreconditionViolation
         else Inr (Polytope (hull_halfspaces hull @
                (if make_minkowski_summable then axis_aligned_bounds d pts else []))))"

text \<open>
  Modelled from the spec: the sink of the boundary constructor, vertex positions and ordered
  face vertex lists (the surface containers are missing).
\<close>

record Mesh =
  mesh_positions :: "Point list"
  mesh_faces :: "IndexRange list"

definition empty_mesh :: Mesh where
  "empty_mesh = \<lparr> mesh_positions = [], mesh_faces = [] \<rparr>"

text \<open>
  Modelled from the spec: \<open>computeConvexHullBoundary\<close> (body in the missing
  \<open>ConvexityHelper.ih\<close>). The spec: it runs the integral-convex kernel, extracts the facets and
  initialises the sink from the positions and \<open>face_vertices\<close>; it returns false and leaves the
  sink empty if the input is not full-dimensional. The cast of the positions to real
  coordinates keeps their values and is left out.
\<close>

definition computeConvexHullBoundary ::
  "nat \<Rightarrow> HullKernel \<Rightarrow> Point list \<Rightarrow> bool \<Rightarrow> Failure + bool \<times> Mesh" where
  "computeConvexHullBoundary d qh input_points remove_duplicates =
     (let pts = (if remove_duplicates then remdups input_points else input_points);
          hull = qh IntegralConvex pts
      in if \<not> full_dimensional d pts then Inr (False, empty_mesh)
         else case computeFacetAndRidgeVertices hull of
                Inl e \<Rightarrow> Inl e
              | Inr ex \<Rightarrow>
                  Inr (True, \<lparr> mesh_positions = hull_positions hull,
                               mesh_faces = face_vertices ex \<rparr>))"

text \<open>
  Modelled from the spec: the cell complex, its vertices, its top-dimensional cells and its
  cells of codimension 1, each an ordered vertex index list (\<open>ConvexCellComplex.h\<close> is
  missing).
\<close>

record CellComplex =
  cc_vertices :: "Point list"
  cc_cells :: "IndexRange list"
  cc_faces :: "IndexRange list"

definition empty_complex :: CellComplex where
  "empty_complex = \<lparr> cc_vertices = [], cc_cells = [], cc_faces = [] \<rparr>"

text \<open>
  Modelled from the spec: \<open>computeConvexHullCellComplex\<close> (body in the missing
  \<open>ConvexityHelper.ih\<close>). The spec: one top-dimensional cell spanning all hull vertices and one
  cell of codimension 1 per extracted facet; false if the input is not full-dimensional.
\<close>

definition computeConvexHullCellComplex ::
  "nat \<Rightarrow> HullKernel \<Rightarrow> Point list \<Rightarrow> bool \<Rightarrow> Failure + bool \<times> CellComplex" where
  "computeConvexHullCellComplex d qh input_points remove_duplicates =
     (let pts = (if remove_duplicates then remdups input_points else input_points);
          hull = qh IntegralConvex pts
      in if \<not> full_dimensional d pts then Inr (False, empty_complex)
         else case computeFacetAndRidgeVertices hull of
                Inl e \<Rightarrow> Inl e
              | Inr ex \<Rightarrow>
                  Inr (True, \<lparr> cc_vertices = hull_positions hull,
                               cc_cells = [[0..<length (hull_positions hull)]],
                               cc_faces = face_vertices ex \<rparr>))"

text \<open>
  Modelled from the spec: the two pieces of the Delaunay construction (body in the missing
  \<open>ConvexityHelper.ih\<close>). The paraboloid lift adds one coordinate, the sum of the squares; a
  cell of the lifted hull is a lower one when its outer normal points downwards.
\<close>

definition lift :: "Point \<Rightarrow> Point" where
  "lift p = p @ [sum_list (map (\<lambda>x. x * x) p)]"

definition is_lower :: "HullRun \<Rightarrow> nat \<Rightarrow> bool" where
  "is_lower hull f =
     (f < length (hull_halfspaces hull) \<and> hs_N (hull_halfspaces hull ! f) \<noteq> [] \<and>
      last (hs_N (hull_halfspaces hull ! f)) < 0)"

text \<open>
  Modelled from the spec: \<open>computeDelaunayCellComplex\<close> (body in the missing
  \<open>ConvexityHelper.ih\<close>). The spec: it lifts every point, runs the Delaunay kernel on the lifted
  points, takes the lower hull facets as top-dimensional cells and the ridges shared by two of
  them as cells of codimension 1, and drops the lifted coordinate; it returns false if the
  lifted input is not full-dimensional.
\<close>

definition computeDelaunayCellComplex ::
  "nat \<Rightarrow> HullKernel \<Rightarrow> Point list \<Rightarrow> bool \<Rightarrow> Failure + bool \<times> CellComplex" where
  "computeDelaunayCellComplex d qh input_points remove_duplicates =
     (let pts = (if remove_duplicates then remdups input_points else input_points);
          lifted = map lift pts;
          hull = qh IntegralDelaunay lifted
      in if \<not> full_dimensional (Suc d) lifted then Inr (False, empty_complex)
         else case computeFacetAndRidgeVertices hull of
                Inl e \<Rightarrow> Inl e
              | Inr ex \<Rightarrow>
                  Inr (True,
                    \<lparr> cc_vertices = map butlast (hull_positions hull),
                      cc_cells = map (cell_at (cell_vertices ex))
                                   (filter (is_lower hull) [0..<length (cell_vertices ex)]),
                      cc_faces = map (shared_vertices (cell_vertices ex))
                                   (filter (\<lambda>r. is_lower hull (fst r) \<and> is_lower hull (snd r))
                                      (first_seen (hull_ridge_list hull))) \<rparr>))"

section \<open>Example hull run\<close>

text \<open>
  The run of a triangle in the plane: three vertices, three edges as cells, each cell next to
  the two others. \<open>triangleKernel\<close> is a stub adapter that returns it for every input.
\<close>

definition triangleRun :: HullRun where
  "triangleRun =
     \<lparr> hull_status = AllCompleted,
       hull_positions = [[0, 0], [1, 0], [0, 1]],
       hull_cells = [[0, 1], [1, 2], [2, 0]],
       hull_neighbors = [[1, 2], [0, 2], [0, 1]],
       hull_halfspaces =
         [\<lparr> hs_N = [0, -1], hs_c = 0 \<rparr>, \<lparr> hs_N = [1, 1], hs_c = 1 \<rparr>,
          \<lparr> hs_N = [-1, 0], hs_c = 0 \<rparr>] \<rparr>"

definition triangleKernel :: HullKernel where
  "triangleKernel k pts = triangleRun"

definition collinearPoints :: "Point list" where
  "collinearPoints = [[0, 0], [1, 1], [2, 2], [1, 1]]"

section \<open>Analyzer: properties\<close>

lemmas Computation_defs =
  FullConvexity_X_with_center_def FullConvexity_X_without_center_def
  FullConvexity_CompX_with_center_def FullConvexity_CompX_without_center_def
  Convexity_X_with_center_def Convexity_X_without_center_def
  Convexity_CompX_with_center_def Convexity_CompX_without_center_def

lemma set_box_points:
  "length lo = length hi \<Longrightarrow>
   set (box_points lo hi) = {p. list_all2 (\<le>) lo p \<and> list_all2 (\<le>) p hi}"
proof (induction lo hi rule: box_points.induct)
  case (1 l ls h hs)
  then have IH: "set (box_points ls hs) = {p. list_all2 (\<le>) ls p \<and> list_all2 (\<le>) p hs}"
    by simp
  show ?case
  proof (rule set_eqI)
    fix p
    show "p \<in> set (box_points (l # ls) (h # hs)) \<longleftrightarrow>
          p \<in> {p. list_all2 (\<le>) (l # ls) p \<and> list_all2 (\<le>) p (h # hs)}"
      by (cases p) (auto simp: IH)
  qed
qed simp_all

lemma window_iff:
  "list_all2 (\<le>) (map (\<lambda>x. x - K) c) p \<and> list_all2 (\<le>) p (map (\<lambda>x. x + K) c) \<longleftrightarrow>
   length p = length c \<and> (\<forall>i<length c. \<bar>p ! i - c ! i\<bar> \<le> (K::int))"
  by (auto simp: list_all2_conv_all_nth abs_le_iff)

lemma same_window_refl: "same_window s s"
  by (simp add: same_window_def)

lemma same_window_trans: "same_window s t \<Longrightarrow> same_window t u \<Longrightarrow> same_window s u"
  by (simp add: same_window_def)

lemma same_window_isFullyConvex: "same_window s (snd (isFullyConvex b s))"
  by (simp add: isFullyConvex_def same_window_def Let_def center_def)

lemma same_window_isComplementaryFullyConvex:
  "same_window s (snd (isComplementaryFullyConvex b s))"
  by (simp add: isComplementaryFullyConvex_def same_window_def Let_def center_def)

lemma same_window_is0Convex: "same_window s (snd (is0Convex b s))"
  by (simp add: is0Convex_def same_window_def Let_def center_def)

lemma same_window_isComplementary0Convex: "same_window s (snd (isComplementary0Convex b s))"
  by (simp add: isComplementary0Convex_def same_window_def Let_def center_def)

lemma same_window_isFullyConvexCollapsible: "same_window s (snd (isFullyConvexCollapsible s))"
proof -
  have a: "same_window s (snd (isFullyConvex False (snd (isFullyConvex True s))))"
    by (rule same_window_trans [OF same_window_isFullyConvex same_window_isFullyConvex])
  have b: "same_window s
     (snd (isComplementaryFullyConvex False (snd (isComplementaryFullyConvex True s))))"
    by (rule same_window_trans
        [OF same_window_isComplementaryFullyConvex same_window_isComplementaryFullyConvex])
  show ?thesis
    using a b same_window_isFullyConvex [of s True]
      same_window_isComplementaryFullyConvex [of s True]
    by (simp add: isFullyConvexCollapsible_def same_window_refl split_beta)
qed

lemma rwc_isFullyConvex:
  "results_within_computations s \<Longrightarrow> results_within_computations (snd (isFullyConvex b s))"
  by (auto simp add: isFullyConvex_def Let_def results_within_computations_def
      bit_eq_iff bit_simps)

lemma rwc_isComplementaryFullyConvex:
  "results_within_computations s \<Longrightarrow>
   results_within_computations (snd (isComplementaryFullyConvex b s))"
  by (auto simp add: isComplementaryFullyConvex_def Let_def results_within_computations_def
      bit_eq_iff bit_simps)

lemma rwc_is0Convex:
  "results_within_computations s \<Longrightarrow> results_within_computations (snd (is0Convex b s))"
  by (auto simp add: is0Convex_def Let_def results_within_computations_def
      bit_eq_iff bit_simps)

lemma rwc_isComplementary0Convex:
  "results_within_computations s \<Longrightarrow>
   results_within_computations (snd (isComplementary0Convex b s))"
  by (auto simp add: isComplementary0Convex_def Let_def results_within_computations_def
      bit_eq_iff bit_simps)

lemma rwc_isFullyConvexCollapsible:
  assumes "results_within_computations s"
  shows "results_within_computations (snd (isFullyConvexCollapsible s))"
proof -
  have "results_within_computations (snd (isFullyConvex True s))"
    and "results_within_computations (snd (isFullyConvex False (snd (isFullyConvex True s))))"
    and "results_within_computations (snd (isComplementaryFullyConvex True s))"
    and "results_within_computations
           (snd (isComplementaryFullyConvex False (snd (isComplementaryFullyConvex True s))))"
    using assms by (simp_all add: rwc_isFullyConvex rwc_isComplementaryFullyConvex)
  with assms show ?thesis
    by (simp add: isFullyConvexCollapsible_def split_beta)
qed

lemma rwc_setCenter: "results_within_computations (setCenter K c X s)"
  by (simp add: setCenter_def results_within_computations_def Let_def)

lemma rwc_constructor:
  "results_within_computations (NeighborhoodConvexityAnalyzer dc cin lo hi)"
  by (simp add: NeighborhoodConvexityAnalyzer_def results_within_computations_def)

lemma rwc_call: "results_within_computations s \<Longrightarrow> results_within_computations (call c s)"
  by (cases c)
    (simp_all add: rwc_setCenter rwc_isFullyConvex rwc_isComplementaryFullyConvex
      rwc_is0Convex rwc_isComplementary0Convex rwc_isFullyConvexCollapsible)

lemma rwc_initialised: "initialised s \<Longrightarrow> results_within_computations s"
  by (induction rule: initialised.induct) (simp_all add: rwc_constructor rwc_setCenter rwc_call)

lemma initialised_reachable: "initialised s \<Longrightarrow> reachable s"
proof (induction rule: initialised.induct)
  case (zeroed dc cin lo hi)
  show ?case by (rule reachable.constructed)
next
  case (recentered s K c X)
  then have "reachable (call (CallSetCenter K c X) s)" by (rule reachable.called)
  then show ?case by simp
next
  case (later s c)
  then show ?case by (simp add: reachable.called)
qed

lemma initialised_calls: "initialised s \<Longrightarrow> initialised (calls cs s)"
  by (induction cs arbitrary: s) (simp_all add: initialised.later)

text \<open>
  Every state built by the constructor from bounds and then changed by calls is initialised,
  and so is every state re-centered after any construction.
\<close>

lemma initialised_from_constructor:
  "initialised (calls cs (NeighborhoodConvexityAnalyzer dc cin lo hi))"
  by (simp add: initialised_calls initialised.zeroed)

lemma initialised_after_setCenter:
  "reachable s \<Longrightarrow> initialised (calls cs (setCenter K c X s))"
  by (simp add: initialised_calls initialised.recentered)

lemma rwc_bits:
  "results_within_computations s \<longleftrightarrow> (\<forall>n. bit (myResults s) n \<longrightarrow> bit (myComputations s) n)"
proof -
  have "n < 32" if "bit (myResults s) n" for n
    using bit_imp_le_length [OF that] by simp
  then show ?thesis
    by (auto simp add: results_within_computations_def bit_eq_iff bit_simps)
qed

text \<open>
  What holds of the inclusion: it holds in every initialised state, the constructor from
  bounds leaves both masks zero, and each of the four predicate accessors keeps it.
\<close>

lemma results_within_computations_initialised:
  "(initialised s \<longrightarrow> (\<forall>n. bit (myResults s) n \<longrightarrow> bit (myComputations s) n)) \<and>
   myComputations (NeighborhoodConvexityAnalyzer dc cin lo hi) = 0 \<and>
   myResults (NeighborhoodConvexityAnalyzer dc cin lo hi) = 0 \<and>
   (results_within_computations t \<longrightarrow>
      results_within_computations (snd (isFullyConvex b t)) \<and>
      results_within_computations (snd (isComplementaryFullyConvex b t)) \<and>
      results_within_computations (snd (is0Convex b t)) \<and>
      results_within_computations (snd (isComplementary0Convex b t)))"
  using rwc_initialised [of s] rwc_bits [of s]
  by (simp add: NeighborhoodConvexityAnalyzer_def rwc_isFullyConvex
      rwc_isComplementaryFullyConvex rwc_is0Convex rwc_isComplementary0Convex)

text \<open>
  C10. The claim that the inclusion holds in every reachable state, both masks being zero
  after construction, fails on the code: the constructors from a space and from bounds zero
  the masks, the defaulted default constructor does not. The default-constructed analyzer
  whose storage held 0 and 1 is reachable, has a result bit without its evaluated flag, and
  answers \<open>isFullyConvex(true)\<close> with false (the oracle's verdict) and then with true (the
  stale result bit).
\<close>

theorem default_constructor_leaves_masks_unset:
  "reachable defaultAnalyzer \<and>
   myComputations defaultAnalyzer = 0 \<and> myResults defaultAnalyzer = 1 \<and>
   \<not> results_within_computations defaultAnalyzer \<and>
   fst (isFullyConvex True defaultAnalyzer) = False \<and>
   fst (isFullyConvex True (snd (isFullyConvex True defaultAnalyzer))) = True"
proof -
  have r: "reachable defaultAnalyzer"
    unfolding defaultAnalyzer_def by (rule reachable.default_constructed)
  have m: "myComputations defaultAnalyzer = 0 \<and> myResults defaultAnalyzer = 1 \<and>
      \<not> results_within_computations defaultAnalyzer"
    by (simp add: defaultAnalyzer_def NeighborhoodConvexityAnalyzer_default_def
        results_within_computations_def)
  have a: "fst (isFullyConvex True defaultAnalyzer) = False"
    by (simp add: defaultAnalyzer_def NeighborhoodConvexityAnalyzer_default_def
        isFullyConvex_def Let_def Computation_defs stubDigConv_def)
  have b: "fst (isFullyConvex True (snd (isFullyConvex True defaultAnalyzer))) = True"
    by (simp add: defaultAnalyzer_def NeighborhoodConvexityAnalyzer_default_def
        isFullyConvex_def Let_def Computation_defs stubDigConv_def)
  from r m a b show ?thesis by blast
qed

lemma cached_bit_clear:
  "results_within_computations s \<Longrightarrow> myComputations s AND m = 0 \<Longrightarrow> myResults s AND m = 0"
  by (auto simp add: results_within_computations_def bit_eq_iff bit_simps)

text \<open>
  C2. In an initialised state (every state after a \<open>setCenter\<close> call, whatever the
  constructor, and every state built from bounds), \<open>isFullyConvex(true)\<close> called twice in a
  row returns the same boolean both times; the second call makes no oracle call, and the two
  calls together make at most one.
\<close>

theorem isFullyConvex_twice:
  assumes "initialised s"
  shows "fst (isFullyConvex True (snd (isFullyConvex True s))) = fst (isFullyConvex True s) \<and>
         oracleTrace (snd (isFullyConvex True (snd (isFullyConvex True s)))) =
           oracleTrace (snd (isFullyConvex True s)) \<and>
         length (oracleTrace (snd (isFullyConvex True (snd (isFullyConvex True s)))))
           \<le> length (oracleTrace s) + 1"
proof -
  have inv: "results_within_computations s"
    using assms by (rule rwc_initialised)
  show ?thesis
  proof (cases "myComputations s AND FullConvexity_X_with_center = 0")
    case True
    then have "myResults s AND FullConvexity_X_with_center = 0"
      using inv by (rule cached_bit_clear [rotated])
    with True show ?thesis
      by (simp add: isFullyConvex_def Let_def FullConvexity_X_with_center_def)
  next
    case False
    then show ?thesis
      by (simp add: isFullyConvex_def Let_def)
  qed
qed

lemma fst_isFullyConvex_False_after_True:
  "fst (isFullyConvex False (snd (isFullyConvex True s))) = fst (isFullyConvex False s)"
  by (simp add: isFullyConvex_def Let_def center_def Computation_defs
      bit.conj_disj_distrib2)

lemma fst_isComplementaryFullyConvex_False_after_True:
  "fst (isComplementaryFullyConvex False (snd (isComplementaryFullyConvex True s))) =
   fst (isComplementaryFullyConvex False s)"
  by (simp add: isComplementaryFullyConvex_def Let_def center_def Computation_defs
      bit.conj_disj_distrib2)

text \<open>
  C3. \<open>isFullyConvexCollapsible()\<close> returns true exactly when, for a center in \<open>X\<close>, \<open>myLocalX\<close>
  is not empty and \<open>isFullyConvex(true)\<close> and \<open>isFullyConvex(false)\<close> both return true, and, for
  a center outside \<open>X\<close>, \<open>myLocalCompX\<close> is not empty and the two complementary accessors both
  return true. With the center in \<open>X\<close> and \<open>myLocalX\<close> empty it returns false and leaves the
  whole state, oracle trace included, as it was.
\<close>

theorem isFullyConvexCollapsible_iff:
  "fst (isFullyConvexCollapsible s) =
     (if isCenterInX s
      then myLocalX s \<noteq> [] \<and> fst (isFullyConvex True s) \<and> fst (isFullyConvex False s)
      else myLocalCompX s \<noteq> [] \<and> fst (isComplementaryFullyConvex True s) \<and>
           fst (isComplementaryFullyConvex False s)) \<and>
   (isCenterInX s \<and> myLocalX s = [] \<longrightarrow> isFullyConvexCollapsible s = (False, s))"
  using fst_isFullyConvex_False_after_True [of s]
    fst_isComplementaryFullyConvex_False_after_True [of s]
  by (auto simp add: isFullyConvexCollapsible_def split_beta)

text \<open>
  Right after a re-centering nothing is cached, and the accessor values above are the oracle's
  verdicts on the range with and without the center.
\<close>

lemma isFullyConvexCollapsible_fresh:
  assumes "myComputations s = 0"
  shows "fst (isFullyConvexCollapsible s) =
     (if isCenterInX s
      then myLocalX s \<noteq> [] \<and>
           dc_isFullyConvex (myDigConv s) (myLocalX s @ [myCenter s]) \<and>
           dc_isFullyConvex (myDigConv s) (myLocalX s)
      else myLocalCompX s \<noteq> [] \<and>
           dc_isFullyConvex (myDigConv s) (myLocalCompX s @ [myCenter s]) \<and>
           dc_isFullyConvex (myDigConv s) (myLocalCompX s))"
  using assms
  by (auto simp add: isFullyConvexCollapsible_def isFullyConvex_def
      isComplementaryFullyConvex_def Let_def center_def Computation_defs split_beta)

text \<open>
  C8. After each of the four predicate accessors, for either argument, both ranges, the center,
  its membership flag, the domain and the oracle are what they were before the call. On a cache
  miss with \<open>with_center = true\<close> the oracle is called exactly once, on the relevant range with
  the center appended.
\<close>

theorem accessors_restore_window:
  "same_window s (snd (isFullyConvex b s)) \<and>
   same_window s (snd (isComplementaryFullyConvex b s)) \<and>
   same_window s (snd (is0Convex b s)) \<and>
   same_window s (snd (isComplementary0Convex b s)) \<and>
   (myComputations s AND FullConvexity_X_with_center = 0 \<longrightarrow>
      oracleTrace (snd (isFullyConvex True s)) =
        oracleTrace s @ [(IsFullyConvexTest, myLocalX s @ [myCenter s])] \<and>
      oracleTrace (snd (is0Convex True s)) =
        oracleTrace s @ [(Is0ConvexTest, myLocalX s @ [myCenter s])]) \<and>
   (myComputations s AND FullConvexity_CompX_with_center = 0 \<longrightarrow>
      oracleTrace (snd (isComplementaryFullyConvex True s)) =
        oracleTrace s @ [(IsFullyConvexTest, myLocalCompX s @ [myCenter s])] \<and>
      oracleTrace (snd (isComplementary0Convex True s)) =
        oracleTrace s @ [(Is0ConvexTest, myLocalCompX s @ [myCenter s])])"
proof -
  have "myComputations s AND FullConvexity_X_with_center = 0 \<longrightarrow>
      oracleTrace (snd (isFullyConvex True s)) =
        oracleTrace s @ [(IsFullyConvexTest, myLocalX s @ [myCenter s])] \<and>
      oracleTrace (snd (is0Convex True s)) =
        oracleTrace s @ [(Is0ConvexTest, myLocalX s @ [myCenter s])]"
    by (simp add: isFullyConvex_def is0Convex_def Let_def center_def)
  moreover have "myComputations s AND FullConvexity_CompX_with_center = 0 \<longrightarrow>
      oracleTrace (snd (isComplementaryFullyConvex True s)) =
        oracleTrace s @ [(IsFullyConvexTest, myLocalCompX s @ [myCenter s])] \<and>
      oracleTrace (snd (isComplementary0Convex True s)) =
        oracleTrace s @ [(Is0ConvexTest, myLocalCompX s @ [myCenter s])]"
    by (simp add: isComplementaryFullyConvex_def isComplementary0Convex_def Let_def center_def)
  ultimately show ?thesis
    using same_window_isFullyConvex [of s b] same_window_isComplementaryFullyConvex [of s b]
      same_window_is0Convex [of s b] same_window_isComplementary0Convex [of s b]
    by blast
qed


lemma window_1_origin:
  "box_points (map (\<lambda>x. x - 1) [0, 0]) (map (\<lambda>x. x + 1) [0, 0]) =
     [[-1, -1], [0, -1], [1, -1], [-1, 0], [0, 0], [1, 0], [-1, 1], [0, 1], [1, 1]]"
  by code_simp

lemma twoPointsAnalyzer_eq:
  "twoPointsAnalyzer =
     \<lparr> myDomain = \<lparr> lowerBound = [-2, -2], upperBound = [2, 2] \<rparr>,
       myDigConv = stubDigConv,
       myCenter = [0, 0],
       myLocalX = [[-1, -1], [1, 0]],
       myLocalCompX = [[0, -1], [1, -1], [-1, 0], [-1, 1], [0, 1], [1, 1]],
       myCenterInX = False,
       myComputations = 0,
       myResults = 0,
       oracleTrace = [] \<rparr>"
  unfolding twoPointsAnalyzer_def setCenter_def window_1_origin
  by (simp add: NeighborhoodConvexityAnalyzer_def isInside_def twoPointsX_def)

lemma centerOnlyAnalyzer_eq:
  "centerOnlyAnalyzer =
     \<lparr> myDomain = \<lparr> lowerBound = [-2, -2], upperBound = [2, 2] \<rparr>,
       myDigConv = stubDigConv,
       myCenter = [0, 0],
       myLocalX = [],
       myLocalCompX = [[-1, -1], [0, -1], [1, -1], [-1, 0], [1, 0], [-1, 1], [0, 1], [1, 1]],
       myCenterInX = True,
       myComputations = 0,
       myResults = 0,
       oracleTrace = [] \<rparr>"
  unfolding centerOnlyAnalyzer_def setCenter_def window_1_origin
  by (simp add: NeighborhoodConvexityAnalyzer_def isInside_def centerOnlyX_def)

lemma initialised_twoPointsAnalyzer: "initialised twoPointsAnalyzer"
  unfolding twoPointsAnalyzer_def
  by (intro initialised.recentered reachable.constructed)

text \<open>
  C1. The claim that each of the eight predicate variants has its own cache slot fails on the
  code: \<open>is0Convex\<close> tests and sets the masks \<open>FullConvexity_X_...\<close> of \<open>isFullyConvex\<close>, and
  the enumerators \<open>Convexity_...\<close> are never used. On the two-point analyzer,
  \<open>isFullyConvex(false)\<close> returns false, and \<open>is0Convex(false)\<close> called next returns that cached
  false without calling the oracle, whose 0-convexity test holds on \<open>myLocalX\<close>.
\<close>

theorem is0Convex_answers_from_isFullyConvex_slot:
  "myLocalX twoPointsAnalyzer = [[-1, -1], [1, 0]] \<and>
   fst (isFullyConvex False twoPointsAnalyzer) = False \<and>
   fst (is0Convex False (snd (isFullyConvex False twoPointsAnalyzer))) = False \<and>
   dc_is0Convex (myDigConv twoPointsAnalyzer) (myLocalX twoPointsAnalyzer) = True \<and>
   oracleTrace (snd (is0Convex False (snd (isFullyConvex False twoPointsAnalyzer)))) =
     [(IsFullyConvexTest, [[-1, -1], [1, 0]])]"
  by (simp add: twoPointsAnalyzer_eq isFullyConvex_def is0Convex_def Let_def
      Computation_defs stubDigConv_def)

lemma is0Convex_after_isFullyConvex:
  "is0Convex b (snd (isFullyConvex b s)) =
     (myResults (snd (isFullyConvex b s)) AND
        (if b then FullConvexity_X_with_center else FullConvexity_X_without_center) \<noteq> 0,
      snd (isFullyConvex b s))"
  by (simp add: isFullyConvex_def is0Convex_def Let_def Computation_defs)

theorem isFullyConvex_twice_witness:
  "initialised twoPointsAnalyzer \<and>
   fst (isFullyConvex True (snd (isFullyConvex True twoPointsAnalyzer))) =
     fst (isFullyConvex True twoPointsAnalyzer) \<and>
   length (oracleTrace (snd (isFullyConvex True (snd (isFullyConvex True twoPointsAnalyzer)))))
     \<le> 1"
proof -
  have e: "length (oracleTrace twoPointsAnalyzer) + 1 = 1"
    by (simp add: twoPointsAnalyzer_eq)
  show ?thesis
    using isFullyConvex_twice [OF initialised_twoPointsAnalyzer, unfolded e]
      initialised_twoPointsAnalyzer
    by blast
qed

theorem isFullyConvexCollapsible_iff_witness:
  "isCenterInX centerOnlyAnalyzer \<and> myLocalX centerOnlyAnalyzer = [] \<and>
   isFullyConvexCollapsible centerOnlyAnalyzer = (False, centerOnlyAnalyzer) \<and>
   oracleTrace (snd (isFullyConvexCollapsible centerOnlyAnalyzer)) = []"
proof -
  have h: "isCenterInX centerOnlyAnalyzer \<and> myLocalX centerOnlyAnalyzer = []"
    by (simp add: centerOnlyAnalyzer_eq isCenterInX_def)
  with isFullyConvexCollapsible_iff [of centerOnlyAnalyzer]
  have "isFullyConvexCollapsible centerOnlyAnalyzer = (False, centerOnlyAnalyzer)"
    by blast
  with h show ?thesis
    by (simp add: centerOnlyAnalyzer_eq)
qed

theorem accessors_restore_window_witness:
  "myComputations twoPointsAnalyzer AND FullConvexity_X_with_center = 0 \<and>
   myComputations twoPointsAnalyzer AND FullConvexity_CompX_with_center = 0 \<and>
   myLocalX (snd (isFullyConvex True twoPointsAnalyzer)) = [[-1, -1], [1, 0]] \<and>
   oracleTrace (snd (isFullyConvex True twoPointsAnalyzer)) =
     [(IsFullyConvexTest, [[-1, -1], [1, 0], [0, 0]])] \<and>
   oracleTrace (snd (isComplementary0Convex True twoPointsAnalyzer)) =
     [(Is0ConvexTest, [[0, -1], [1, -1], [-1, 0], [-1, 1], [0, 1], [1, 1], [0, 0]])]"
  using accessors_restore_window [of twoPointsAnalyzer True]
  by (simp add: twoPointsAnalyzer_eq same_window_def)

lemma myDomain_call: "myDomain (call c s) = myDomain s"
proof (cases c)
  case (CallSetCenter K p X)
  then show ?thesis by (simp add: setCenter_def Let_def)
next
  case (CallIsFullyConvex b)
  then show ?thesis using same_window_isFullyConvex [of s b] by (simp add: same_window_def)
next
  case (CallIsComplementaryFullyConvex b)
  then show ?thesis
    using same_window_isComplementaryFullyConvex [of s b] by (simp add: same_window_def)
next
  case (CallIs0Convex b)
  then show ?thesis using same_window_is0Convex [of s b] by (simp add: same_window_def)
next
  case (CallIsComplementary0Convex b)
  then show ?thesis
    using same_window_isComplementary0Convex [of s b] by (simp add: same_window_def)
next
  case CallIsFullyConvexCollapsible
  then show ?thesis
    using same_window_isFullyConvexCollapsible [of s] by (simp add: same_window_def)
qed

lemma myDomain_calls: "myDomain (calls cs s) = myDomain s"
  by (induction cs arbitrary: s) (simp_all add: myDomain_call)

lemma set_window:
  "set (box_points (map (\<lambda>x. x - K) c) (map (\<lambda>x. x + K) c)) =
     {p. length p = length c \<and> (\<forall>i<length c. \<bar>p ! i - c ! i\<bar> \<le> K)}"
  using window_iff [of K c] by (simp add: set_box_points)

text \<open>
  C9. A \<open>setCenter\<close> at \<open>c2\<close> that follows a \<open>setCenter\<close> at \<open>c1\<close> and any calls in between
  leaves both masks zero, so that all eight bits read as not evaluated, and leaves in both
  ranges what a \<open>setCenter\<close> at \<open>c2\<close> computes from the state before \<open>c1\<close>: the points of the
  window around \<open>c2\<close> that are inside the domain and differ from \<open>c2\<close>, split by \<open>X\<close>.
\<close>

theorem setCenter_again_resets:
  "myComputations (setCenter K c2 X2 (calls cs (setCenter K c1 X1 s0))) = 0 \<and>
   myResults (setCenter K c2 X2 (calls cs (setCenter K c1 X1 s0))) = 0 \<and>
   list_all (\<lambda>m. myComputations (setCenter K c2 X2 (calls cs (setCenter K c1 X1 s0))) AND m = 0)
     all_Computations \<and>
   myCenter (setCenter K c2 X2 (calls cs (setCenter K c1 X1 s0))) = c2 \<and>
   myCenterInX (setCenter K c2 X2 (calls cs (setCenter K c1 X1 s0))) = X2 c2 \<and>
   myLocalX (setCenter K c2 X2 (calls cs (setCenter K c1 X1 s0))) =
     myLocalX (setCenter K c2 X2 s0) \<and>
   myLocalCompX (setCenter K c2 X2 (calls cs (setCenter K c1 X1 s0))) =
     myLocalCompX (setCenter K c2 X2 s0) \<and>
   set (myLocalX (setCenter K c2 X2 (calls cs (setCenter K c1 X1 s0)))) =
     {p. length p = length c2 \<and> (\<forall>i<length c2. \<bar>p ! i - c2 ! i\<bar> \<le> K) \<and>
         isInside (myDomain s0) p \<and> p \<noteq> c2 \<and> X2 p} \<and>
   set (myLocalCompX (setCenter K c2 X2 (calls cs (setCenter K c1 X1 s0)))) =
     {p. length p = length c2 \<and> (\<forall>i<length c2. \<bar>p ! i - c2 ! i\<bar> \<le> K) \<and>
         isInside (myDomain s0) p \<and> p \<noteq> c2 \<and> \<not> X2 p}"
proof -
  define s1 where "s1 = calls cs (setCenter K c1 X1 s0)"
  have d: "myDomain s1 = myDomain s0"
    by (simp add: s1_def myDomain_calls setCenter_def Let_def)
  have masks: "myComputations (setCenter K c2 X2 s1) = 0 \<and> myResults (setCenter K c2 X2 s1) = 0"
    by (simp add: setCenter_def Let_def)
  then have bits: "list_all (\<lambda>m. myComputations (setCenter K c2 X2 s1) AND m = 0) all_Computations"
    by (simp add: all_Computations_def)
  have cen: "myCenter (setCenter K c2 X2 s1) = c2 \<and> myCenterInX (setCenter K c2 X2 s1) = X2 c2"
    by (simp add: setCenter_def Let_def)
  have lists: "myLocalX (setCenter K c2 X2 s1) = myLocalX (setCenter K c2 X2 s0) \<and>
      myLocalCompX (setCenter K c2 X2 s1) = myLocalCompX (setCenter K c2 X2 s0)"
    by (simp add: setCenter_def Let_def d)
  have sx: "set (myLocalX (setCenter K c2 X2 s1)) =
     {p. length p = length c2 \<and> (\<forall>i<length c2. \<bar>p ! i - c2 ! i\<bar> \<le> K) \<and>
         isInside (myDomain s0) p \<and> p \<noteq> c2 \<and> X2 p}"
    by (auto simp add: setCenter_def Let_def d set_window)
  have sc: "set (myLocalCompX (setCenter K c2 X2 s1)) =
     {p. length p = length c2 \<and> (\<forall>i<length c2. \<bar>p ! i - c2 ! i\<bar> \<le> K) \<and>
         isInside (myDomain s0) p \<and> p \<noteq> c2 \<and> \<not> X2 p}"
    by (auto simp add: setCenter_def Let_def d set_window)
  show ?thesis
    using masks bits cen lists sx sc unfolding s1_def by blast
qed

theorem setCenter_again_resets_witness:
  "myComputations (snd (isFullyConvex True centerOnlyAnalyzer)) = 1 \<and>
   myComputations (setCenter 1 [0, 0] twoPointsX
      (calls [CallIsFullyConvex True] centerOnlyAnalyzer)) = 0 \<and>
   myLocalX (setCenter 1 [0, 0] twoPointsX
      (calls [CallIsFullyConvex True] centerOnlyAnalyzer)) = [[-1, -1], [1, 0]]"
proof -
  have a: "myComputations (snd (isFullyConvex True centerOnlyAnalyzer)) = 1"
    by (simp add: centerOnlyAnalyzer_eq isFullyConvex_def Let_def Computation_defs)
  have b: "myLocalX (setCenter 1 [0, 0] twoPointsX
      (NeighborhoodConvexityAnalyzer stubDigConv False [-2, -2] [2, 2])) = [[-1, -1], [1, 0]]"
    using twoPointsAnalyzer_eq by (simp add: twoPointsAnalyzer_def)
  show ?thesis
    using a b
      setCenter_again_resets [of 1 "[0, 0]" twoPointsX "[CallIsFullyConvex True]" "[0, 0]"
        centerOnlyX "NeighborhoodConvexityAnalyzer stubDigConv False [-2, -2] [2, 2]"]
    by (simp add: centerOnlyAnalyzer_def)
qed

section \<open>Convex hull services: properties\<close>

lemma first_seen_snoc:
  "first_seen (xs @ [x]) = (if x \<in> set xs then first_seen xs else first_seen xs @ [x])"
  by (simp add: first_seen_def)

lemma set_first_seen: "set (first_seen xs) = set xs"
  by (simp add: first_seen_def)

lemma distinct_first_seen: "distinct (first_seen xs)"
  by (simp add: first_seen_def)

lemma map_of_snoc:
  "map_of (ps @ [(k, v)]) x =
     (case map_of ps x of None \<Rightarrow> (if x = k then Some v else None) | Some y \<Rightarrow> Some y)"
  by (induction ps) auto

lemma map_of_zip_snoc:
  assumes "r \<notin> set fs"
  shows "map_of (zip (fs @ [r]) [0..<Suc (length fs)]) =
         (map_of (zip fs [0..<length fs]))(r \<mapsto> length fs)"
proof (rule ext)
  fix x
  let ?m = "map_of (zip fs [0..<length fs])"
  have z: "zip (fs @ [r]) [0..<Suc (length fs)] = zip fs [0..<length fs] @ [(r, length fs)]"
    by simp
  have n: "?m r = None"
    using assms by (simp add: map_of_zip_is_None)
  show "map_of (zip (fs @ [r]) [0..<Suc (length fs)]) x = (?m(r \<mapsto> length fs)) x"
  proof (cases "x = r")
    case True
    then show ?thesis
      unfolding z map_of_snoc by (simp add: n)
  next
    case False
    then show ?thesis
      unfolding z map_of_snoc by (cases "?m x") (simp_all del: map_of_zip_is_None)
  qed
qed

lemma foldl_see_ridge:
  "foldl (see_ridge cells) (Map.empty, []) rs =
     (map_of (zip (first_seen (map (\<lambda>(f, g). ridge f g) rs))
                  [0..<length (first_seen (map (\<lambda>(f, g). ridge f g) rs))]),
      map (shared_vertices cells) (first_seen (map (\<lambda>(f, g). ridge f g) rs)))"
proof (induction rs rule: rev_induct)
  case Nil
  then show ?case by (simp add: first_seen_def)
next
  case (snoc x rs)
  obtain f g where x: "x = (f, g)" by (cases x)
  let ?R = "map (\<lambda>(f, g). ridge f g) rs"
  let ?fs = "first_seen ?R"
  let ?m = "map_of (zip ?fs [0..<length ?fs])"
  let ?fv = "map (shared_vertices cells) ?fs"
  have fs_snoc: "first_seen (map (\<lambda>(f, g). ridge f g) (rs @ [x])) =
      (if ridge f g \<in> set ?R then ?fs else ?fs @ [ridge f g])"
    by (simp add: x first_seen_snoc)
  have step: "foldl (see_ridge cells) (Map.empty, []) (rs @ [x]) =
      see_ridge cells (?m, ?fv) (f, g)"
    by (simp add: snoc.IH x)
  show ?case
  proof (cases "ridge f g \<in> set ?R")
    case True
    then have "ridge f g \<in> set ?fs" by (simp only: set_first_seen)
    then have "?m (ridge f g) \<noteq> None"
      by (simp add: map_of_zip_is_None)
    then obtain i where "?m (ridge f g) = Some i" by blast
    then have "see_ridge cells (?m, ?fv) (f, g) = (?m, ?fv)" by simp
    then show ?thesis
      unfolding step fs_snoc using True by simp
  next
    case False
    then have nin: "ridge f g \<notin> set ?fs" by (simp add: set_first_seen)
    then have mn: "?m (ridge f g) = None"
      by (simp add: map_of_zip_is_None)
    have a: "see_ridge cells (?m, ?fv) (f, g) =
        (?m(ridge f g \<mapsto> length ?fs), ?fv @ [shared_vertices cells (ridge f g)])"
      by (simp add: mn)
    have b: "(map_of (zip (?fs @ [ridge f g]) [0..<length (?fs @ [ridge f g])]),
              map (shared_vertices cells) (?fs @ [ridge f g])) =
        (?m(ridge f g \<mapsto> length ?fs), ?fv @ [shared_vertices cells (ridge f g)])"
      using map_of_zip_snoc [OF nin] by simp
    show ?thesis
      unfolding step fs_snoc if_not_P [OF False] a b ..
  qed
qed

lemma ran_map_of_zip_upt:
  "distinct fs \<Longrightarrow> ran (map_of (zip fs [0..<length fs])) = {..<length fs}"
  using ran_map_of_zip [of fs "[0..<length fs]"] by (simp add: atLeast_upt)

lemma inj_on_map_of_zip_upt:
  "distinct fs \<Longrightarrow> inj_on (map_of (zip fs [0..<length fs])) (set fs)"
proof (rule inj_onI)
  fix x y
  assume d: "distinct fs" and x: "x \<in> set fs" and y: "y \<in> set fs"
    and e: "map_of (zip fs [0..<length fs]) x = map_of (zip fs [0..<length fs]) y"
  from x obtain i where i: "i < length fs" "fs ! i = x" by (auto simp: in_set_conv_nth)
  from y obtain j where j: "j < length fs" "fs ! j = y" by (auto simp: in_set_conv_nth)
  have "map_of (zip fs [0..<length fs]) (fs ! i) = Some ([0..<length fs] ! i)"
    using d i by (intro map_of_zip_nth) simp_all
  moreover have "map_of (zip fs [0..<length fs]) (fs ! j) = Some ([0..<length fs] ! j)"
    using d j by (intro map_of_zip_nth) simp_all
  ultimately have "i = j" using e i j by simp
  with i j show "x = y" by simp
qed

text \<open>
  C7. For a completed hull run the extraction succeeds, and its map \<open>r2f\<close> is defined exactly on
  the ridges of the run, takes exactly the values \<open>0, ..., n - 1\<close> where \<open>n\<close> is the number of
  facet vertex lists, and is injective: every ridge has one facet index and every assigned
  index is the image of one ridge. The index of a ridge is its position among the ridges in the
  order of their first occurrence in the ridge enumeration.
\<close>

theorem ridge_facet_bijection:
  assumes "hull_status hull = AllCompleted"
  shows "\<exists>e. computeFacetAndRidgeVertices hull = Inr e \<and>
           cell_vertices e = hull_cells hull \<and>
           dom (r2f e) = set (hull_ridge_list hull) \<and>
           ran (r2f e) = {..<length (face_vertices e)} \<and>
           inj_on (r2f e) (dom (r2f e)) \<and>
           r2f e = map_of (zip (first_seen (hull_ridge_list hull))
                      [0..<length (first_seen (hull_ridge_list hull))]) \<and>
           face_vertices e =
             map (shared_vertices (hull_cells hull)) (first_seen (hull_ridge_list hull))"
proof -
  let ?fs = "first_seen (hull_ridge_list hull)"
  let ?e = "\<lparr> cell_vertices = hull_cells hull,
              r2f = map_of (zip ?fs [0..<length ?fs]),
              face_vertices = map (shared_vertices (hull_cells hull)) ?fs \<rparr>"
  have run: "computeFacetAndRidgeVertices hull = Inr ?e"
    using assms
    by (simp add: computeFacetAndRidgeVertices_def foldl_see_ridge hull_ridge_list_def)
  have d: "dom (r2f ?e) = set (hull_ridge_list hull)"
    by (simp add: dom_map_of_zip set_first_seen)
  have r: "ran (r2f ?e) = {..<length (face_vertices ?e)}"
    by (simp add: ran_map_of_zip_upt distinct_first_seen)
  have i: "inj_on (r2f ?e) (dom (r2f ?e))"
    using inj_on_map_of_zip_upt [OF distinct_first_seen, of "hull_ridge_list hull"]
    by (simp add: dom_map_of_zip)
  show ?thesis
    using run d r i by (intro exI [of _ ?e]) simp
qed

lemma triangle_ridges:
  "hull_ridge_list triangleRun = [(0, 1), (0, 2), (0, 1), (1, 2), (0, 2), (1, 2)]"
  by (simp add: hull_ridge_list_def hull_ridges_def neighbors_of_def triangleRun_def ridge_def
      upt_rec)

lemma triangle_first_seen:
  "first_seen (hull_ridge_list triangleRun) = [(0, 1), (0, 2), (1, 2)]"
  by (simp add: triangle_ridges first_seen_def)

lemma triangle_faces:
  "map (shared_vertices (hull_cells triangleRun)) [(0, 1), (0, 2), (1, 2)] = [[1], [0], [2]]"
  by (simp add: shared_vertices_def cell_at_def triangleRun_def)

theorem ridge_facet_bijection_witness:
  "hull_status triangleRun = AllCompleted \<and>
   (\<exists>e. computeFacetAndRidgeVertices triangleRun = Inr e \<and>
        dom (r2f e) = {(0, 1), (0, 2), (1, 2)} \<and>
        ran (r2f e) = {..<3} \<and>
        r2f e (0, 2) = Some 1 \<and>
        face_vertices e = [[1], [0], [2]])"
proof -
  have st: "hull_status triangleRun = AllCompleted"
    by (simp add: triangleRun_def)
  from ridge_facet_bijection [OF st] obtain e where
    run: "computeFacetAndRidgeVertices triangleRun = Inr e"
    and d: "dom (r2f e) = set (hull_ridge_list triangleRun)"
    and r: "ran (r2f e) = {..<length (face_vertices e)}"
    and m: "r2f e = map_of (zip (first_seen (hull_ridge_list triangleRun))
                      [0..<length (first_seen (hull_ridge_list triangleRun))])"
    and fv: "face_vertices e =
             map (shared_vertices (hull_cells triangleRun))
               (first_seen (hull_ridge_list triangleRun))"
    by blast
  have fv': "face_vertices e = [[1], [0], [2]]"
    using fv by (simp only: triangle_first_seen triangle_faces)
  have d': "dom (r2f e) = {(0, 1), (0, 2), (1, 2)}"
    using d by (auto simp add: triangle_ridges)
  have r': "ran (r2f e) = {..<3}"
    using r by (simp add: fv')
  have m': "r2f e (0, 2) = Some 1"
    by (simp add: m triangle_first_seen upt_rec)
  show ?thesis
    using st run d' r' m' fv' by blast
qed

lemma dot_append:
  "length a = length p \<Longrightarrow> dot (a @ a') (p @ p') = dot a p + dot a' p'"
  by (simp add: dot_def)

lemma in_common_hyperplane_lift:
  assumes len: "\<forall>p\<in>set pts. length p = d" and h: "in_common_hyperplane d pts"
  shows "in_common_hyperplane (Suc d) (map lift pts)"
proof -
  from h obtain a b where a: "length a = d" "a \<noteq> replicate d 0"
    and eq: "\<forall>p\<in>set pts. dot a p = b"
    unfolding in_common_hyperplane_def by blast
  have "length (a @ [0]) = Suc d" using a by simp
  moreover have "a @ [0] \<noteq> replicate (Suc d) 0"
    using a by (simp add: replicate_append_same [symmetric])
  moreover have "\<forall>q\<in>set (map lift pts). dot (a @ [0]) q = b"
  proof
    fix q assume "q \<in> set (map lift pts)"
    then obtain p where p: "p \<in> set pts" "q = lift p" by auto
    with len a have "length a = length p" by simp
    then have "dot (a @ [0]) (lift p) = dot a p"
      unfolding lift_def by (simp add: dot_append) (simp add: dot_def)
    with p eq show "dot (a @ [0]) q = b" by simp
  qed
  ultimately show ?thesis
    unfolding in_common_hyperplane_def by blast
qed

lemma in_common_hyperplane_remdups:
  "in_common_hyperplane d (remdups pts) = in_common_hyperplane d pts"
  by (simp add: in_common_hyperplane_def)

text \<open>
  C4. For input points of dimension \<open>d\<close> that lie in a common hyperplane (affine span of
  dimension less than \<open>d\<close>), whatever the hull kernel and the toggles, \<open>computeLatticePolytope\<close>
  returns the empty polytope and the three other builders return false, each as a normal
  return and not as a failure.
\<close>

theorem degenerate_input_is_reported:
  assumes "\<forall>p\<in>set input_points. length p = d"
    and "in_common_hyperplane d input_points"
  shows "computeLatticePolytope d qh input_points rd mms = Inr EmptyPolytope \<and>
         computeConvexHullBoundary d qh input_points rd = Inr (False, empty_mesh) \<and>
         computeConvexHullCellComplex d qh input_points rd = Inr (False, empty_complex) \<and>
         computeDelaunayCellComplex d qh input_points rd = Inr (False, empty_complex)"
proof -
  let ?pts = "if rd then remdups input_points else input_points"
  have len: "\<forall>p\<in>set ?pts. length p = d" using assms(1) by simp
  have flat: "in_common_hyperplane d ?pts"
    using assms(2) by (simp add: in_common_hyperplane_remdups)
  have lifted: "in_common_hyperplane (Suc d) (map lift ?pts)"
    using len flat by (rule in_common_hyperplane_lift)
  have a: "computeLatticePolytope d qh input_points rd mms = Inr EmptyPolytope"
    using flat by (simp add: computeLatticePolytope_def full_dimensional_def Let_def)
  have b: "computeConvexHullBoundary d qh input_points rd = Inr (False, empty_mesh)"
    using flat by (simp add: computeConvexHullBoundary_def full_dimensional_def Let_def)
  have c: "computeConvexHullCellComplex d qh input_points rd = Inr (False, empty_complex)"
    using flat by (simp add: computeConvexHullCellComplex_def full_dimensional_def Let_def)
  have e: "computeDelaunayCellComplex d qh input_points rd = Inr (False, empty_complex)"
    using lifted by (simp add: computeDelaunayCellComplex_def full_dimensional_def Let_def)
  from a b c e show ?thesis by simp
qed

lemma collinear_in_hyperplane: "in_common_hyperplane 2 collinearPoints"
  unfolding in_common_hyperplane_def
  by (rule exI [of _ "[1, - 1]"], rule exI [of _ 0]) (simp add: collinearPoints_def dot_def numeral_2_eq_2)

theorem degenerate_input_is_reported_witness:
  "in_common_hyperplane 2 collinearPoints \<and>
   computeLatticePolytope 2 triangleKernel collinearPoints True False = Inr EmptyPolytope \<and>
   computeConvexHullBoundary 2 triangleKernel collinearPoints True = Inr (False, empty_mesh) \<and>
   computeConvexHullCellComplex 2 triangleKernel collinearPoints False =
     Inr (False, empty_complex) \<and>
   computeDelaunayCellComplex 2 triangleKernel collinearPoints True =
     Inr (False, empty_complex)"
proof -
  have len: "\<forall>p\<in>set collinearPoints. length p = 2"
    by (simp add: collinearPoints_def)
  show ?thesis
    using collinear_in_hyperplane
      degenerate_input_is_reported [OF len collinear_in_hyperplane, of triangleKernel True False]
      degenerate_input_is_reported [OF len collinear_in_hyperplane, of triangleKernel False False]
    by simp
qed

end
